theory Spec2Isabelle
  imports Main
begin

section \<open>The keyword research panel (src/components/KeywordResearchPanel.tsx)\<close>

text \<open>
  The component keeps six cells of React state and reacts to edits, to a debounce timer and
  to the provider's responses. Strings are modelled as \<^typ>\<open>string\<close>; the model is exact on
  ASCII text. JSON numbers are modelled as integers.
\<close>

subsection \<open>JavaScript values read from the provider\<close>

text \<open>
  A value produced by \<^verbatim>\<open>response.json()\<close>. An object is the list of its own properties;
  reading a property takes the first binding of the name. The value \<^verbatim>\<open>undefined\<close> is
  \<^const>\<open>None\<close> of \<^typ>\<open>'a option\<close>.
\<close>

datatype json =
    JNull
  | JBool bool
  | JNum int
  | JStr string
  | JArr "json list"
  | JObj "(string \<times> json) list"

text \<open>Truthiness, as \<^verbatim>\<open>!x\<close>, \<^verbatim>\<open>x || y\<close> and \<^verbatim>\<open>x ? a : b\<close> test it.\<close>

fun truthy :: "json \<Rightarrow> bool" where
  "truthy JNull = False"
| "truthy (JBool b) = b"
| "truthy (JNum n) = (n \<noteq> 0)"
| "truthy (JStr s) = (s \<noteq> [])"
| "truthy (JArr xs) = True"
| "truthy (JObj fs) = True"

text \<open>\<^verbatim>\<open>a || b\<close> where either side may be \<^verbatim>\<open>undefined\<close>.\<close>

definition js_or :: "json option \<Rightarrow> json option \<Rightarrow> json option" where
  "js_or a b = (case a of None \<Rightarrow> b | Some v \<Rightarrow> if truthy v then Some v else b)"

text \<open>\<^verbatim>\<open>a || d\<close> where the right side is a literal of the program.\<close>

definition or_default :: "json option \<Rightarrow> json \<Rightarrow> json" where
  "or_default a d = (case a of None \<Rightarrow> d | Some v \<Rightarrow> if truthy v then v else d)"

text \<open>
  A chain \<^verbatim>\<open>a || b || ...\<close> of any length: its first truthy operand, or else its last
  operand. The proofs below read the chain of \<^verbatim>\<open>searchKeywords\<close> through it.
\<close>

fun or_chain :: "json option list \<Rightarrow> json option" where
  "or_chain [] = None"
| "or_chain [a] = a"
| "or_chain (a # b # vs) = js_or a (or_chain (b # vs))"

text \<open>
  Reading the property \<open>k\<close> of a value that is neither \<^verbatim>\<open>null\<close> nor \<^verbatim>\<open>undefined\<close>. Only
  objects carry the names the program reads (\<^verbatim>\<open>data\<close>, \<^verbatim>\<open>allIdeas\<close>, \<^verbatim>\<open>questionIdeas\<close>,
  \<^verbatim>\<open>results\<close>, \<^verbatim>\<open>keyword\<close>, \<^verbatim>\<open>searchVolume\<close>, \<^verbatim>\<open>volume\<close>, \<^verbatim>\<open>monthly_searches\<close>,
  \<^verbatim>\<open>volumeLabel\<close>, \<^verbatim>\<open>difficultyLabel\<close>, \<^verbatim>\<open>message\<close>): none of them is a built-in member
  of a string, a number, a boolean or an array, where the read gives \<^verbatim>\<open>undefined\<close>.
\<close>

fun member :: "json \<Rightarrow> string \<Rightarrow> json option" where
  "member (JObj fs) k = map_of fs k"
| "member _ k = None"

datatype type_error = PropertyOfNull string | NotIterable

text \<open>\<^verbatim>\<open>v.k\<close>: a TypeError on \<^verbatim>\<open>null\<close>.\<close>

definition get_prop :: "json \<Rightarrow> string \<Rightarrow> type_error + json option" where
  "get_prop v k = (if v = JNull then Inl (PropertyOfNull k) else Inr (member v k))"

text \<open>\<^verbatim>\<open>a?.k\<close>: \<^verbatim>\<open>undefined\<close> when \<open>a\<close> is \<^verbatim>\<open>null\<close> or \<^verbatim>\<open>undefined\<close>.\<close>

definition opt_chain :: "json option \<Rightarrow> string \<Rightarrow> json option" where
  "opt_chain a k =
     (case a of None \<Rightarrow> None | Some v \<Rightarrow> if v = JNull then None else member v k)"

text \<open>
  The spread \<^verbatim>\<open>[...x]\<close>: the elements of an array, the characters of a string, a TypeError
  on every other value.
\<close>

fun spread :: "json \<Rightarrow> type_error + json list" where
  "spread (JArr xs) = Inr xs"
| "spread (JStr s) = Inr (map (\<lambda>c. JStr [c]) s)"
| "spread _ = Inl NotIterable"

subsection \<open>The response normalizer (searchKeywords, after a successful response)\<close>

text \<open>
  The objects the normalizer builds. The TypeScript type declares \<^verbatim>\<open>term: string\<close>,
  \<^verbatim>\<open>volume: number\<close>, \<^verbatim>\<open>difficulty: number\<close>, but the values are whatever the payload
  holds: \<^verbatim>\<open>term\<close> may be \<^verbatim>\<open>undefined\<close>, the other two are a number or a label.
\<close>

record keyword =
  kterm :: "json option"
  volume :: json
  difficulty :: json

text \<open>
  The function mapped over the merged array:
  \<^verbatim>\<open>exactVolume = keyword.searchVolume || keyword.volume || keyword.monthly_searches\<close>, then
  \<^verbatim>\<open>volume: typeof exactVolume === 'number' ? exactVolume : (keyword.volumeLabel || 'Unknown')\<close>
  and \<^verbatim>\<open>difficulty: keyword.difficultyLabel || 'Unknown'\<close>. The first property read throws
  on a \<^verbatim>\<open>null\<close> item.
\<close>

definition to_keyword :: "json \<Rightarrow> type_error + keyword" where
  "to_keyword kw =
     (case get_prop kw ''searchVolume'' of
        Inl e \<Rightarrow> Inl e
      | Inr searchVolume \<Rightarrow>
          let exactVolume =
                js_or (js_or searchVolume (member kw ''volume'')) (member kw ''monthly_searches'')
          in Inr \<lparr> kterm = member kw ''keyword'',
                   volume = (case exactVolume of
                               Some (JNum n) \<Rightarrow> JNum n
                             | _ \<Rightarrow> or_default (member kw ''volumeLabel'') (JStr ''Unknown'')),
                   difficulty = or_default (member kw ''difficultyLabel'') (JStr ''Unknown'') \<rparr>)"

text \<open>\<^verbatim>\<open>keywords.map(...)\<close>: in order; the first item that throws ends the whole call.\<close>

fun map_items :: "json list \<Rightarrow> type_error + keyword list" where
  "map_items [] = Inr []"
| "map_items (x # xs) =
     (case to_keyword x of
        Inl e \<Rightarrow> Inl e
      | Inr k \<Rightarrow> (case map_items xs of Inl e \<Rightarrow> Inl e | Inr ks \<Rightarrow> Inr (k # ks)))"

text \<open>
  Lines 81 to 97, on the parsed body \<open>data\<close>:
  \<^verbatim>\<open>allIdeas = data.data?.allIdeas?.results || []\<close>, the same for \<^verbatim>\<open>questionIdeas\<close>,
  \<^verbatim>\<open>[...allIdeas, ...questionIdeas]\<close>, then the map.
\<close>

definition searchKeywords_payload :: "json \<Rightarrow> type_error + keyword list" where
  "searchKeywords_payload data =
     (case get_prop data ''data'' of
        Inl e \<Rightarrow> Inl e
      | Inr d \<Rightarrow>
          let allIdeas = or_default (opt_chain (opt_chain d ''allIdeas'') ''results'') (JArr []);
              questionIdeas =
                or_default (opt_chain (opt_chain d ''questionIdeas'') ''results'') (JArr [])
          in (case spread allIdeas of
                Inl e \<Rightarrow> Inl e
              | Inr a \<Rightarrow>
                  (case spread questionIdeas of
                     Inl e \<Rightarrow> Inl e
                   | Inr q \<Rightarrow> map_items (a @ q))))"

subsection \<open>The normalizer as the specification words it\<close>

text \<open>
  These definitions follow the specification, not the code; the theorems below compare them
  with \<^const>\<open>searchKeywords_payload\<close>.

  The value reached from \<open>v\<close> by following property names through nested objects, if every
  one of them is there.
\<close>

fun at_path :: "json \<Rightarrow> string list \<Rightarrow> json option" where
  "at_path v [] = Some v"
| "at_path v (k # ks) = (case member v k of None \<Rightarrow> None | Some w \<Rightarrow> at_path w ks)"

text \<open>
  A body lacks a suggestion collection when the outer data object, the collection or its
  results is absent (or \<^verbatim>\<open>null\<close>).
\<close>

definition lacks :: "json \<Rightarrow> string \<Rightarrow> bool" where
  "lacks body name =
     (case at_path body [''data'', name, ''results''] of None \<Rightarrow> True | Some v \<Rightarrow> v = JNull)"

text \<open>The results array of a collection that is present.\<close>

definition results_array :: "json \<Rightarrow> string \<Rightarrow> json list option" where
  "results_array body name =
     (case at_path body [''data'', name, ''results''] of Some (JArr xs) \<Rightarrow> Some xs | _ \<Rightarrow> None)"

text \<open>A missing collection counts as the empty array.\<close>

definition results_or_empty :: "json \<Rightarrow> string \<Rightarrow> json list" where
  "results_or_empty body name = (case results_array body name of None \<Rightarrow> [] | Some xs \<Rightarrow> xs)"

text \<open>
  A collection the normalizer can read: it is missing, or an array, or its results hold a
  falsy value (\<^verbatim>\<open>false\<close>, \<^verbatim>\<open>0\<close>, the empty string), which the code takes for missing as
  well.
\<close>

definition collection_ok :: "json \<Rightarrow> string \<Rightarrow> bool" where
  "collection_ok body name =
     (case at_path body [''data'', name, ''results''] of
        None \<Rightarrow> True
      | Some (JArr xs) \<Rightarrow> True
      | Some v \<Rightarrow> \<not> truthy v)"

definition collections_ok :: "json \<Rightarrow> bool" where
  "collections_ok body =
     (collection_ok body ''allIdeas'' \<and> collection_ok body ''questionIdeas'')"

text \<open>
  The exact numeric volume of an item: the first of the three provider fields, in priority
  order, that holds a number.
\<close>

definition volume_fields :: "string list" where
  "volume_fields = [''searchVolume'', ''volume'', ''monthly_searches'']"

fun first_number :: "json option list \<Rightarrow> int option" where
  "first_number [] = None"
| "first_number (Some (JNum n) # vs) = Some n"
| "first_number (v # vs) = first_number vs"

definition exact_volume :: "json \<Rightarrow> int option" where
  "exact_volume item = first_number (map (member item) volume_fields)"

text \<open>
  \<open>term\<close>: the keyword field; \<open>volume\<close>: the exact numeric volume if present, else the volume
  label, else \<open>Unknown\<close>; \<open>difficulty\<close>: the difficulty label, else \<open>Unknown\<close>.
\<close>

definition spec_keyword :: "json \<Rightarrow> keyword" where
  "spec_keyword item =
     \<lparr> kterm = member item ''keyword'',
       volume = (case exact_volume item of
                   Some n \<Rightarrow> JNum n
                 | None \<Rightarrow> (case member item ''volumeLabel'' of
                              Some l \<Rightarrow> l
                            | None \<Rightarrow> JStr ''Unknown'')),
       difficulty = (case member item ''difficultyLabel'' of
                       Some l \<Rightarrow> l
                     | None \<Rightarrow> JStr ''Unknown'') \<rparr>"

text \<open>
  The volume fields of an item, in priority order, on which the claim and the code can
  agree: the first field that holds a number holds a number other than 0, and no field
  before it holds a truthy value that is not a number. Fields that are absent or hold
  \<^verbatim>\<open>null\<close>, \<^verbatim>\<open>false\<close> or the empty string are passed over.
\<close>

fun volumes_ok :: "json option list \<Rightarrow> bool" where
  "volumes_ok [] = True"
| "volumes_ok (None # vs) = volumes_ok vs"
| "volumes_ok (Some (JNum n) # vs) = (n \<noteq> 0)"
| "volumes_ok (Some v # vs) = (if truthy v then first_number vs = None else volumes_ok vs)"

text \<open>A label that is absent or truthy (a non-empty string).\<close>

definition label_ok :: "json option \<Rightarrow> bool" where
  "label_ok a = (case a of None \<Rightarrow> True | Some v \<Rightarrow> truthy v)"

text \<open>
  A plain item: not \<^verbatim>\<open>null\<close>; volume fields as above; the difficulty label, and the volume
  label when no volume field holds a number, absent or truthy.
\<close>

definition plain_item :: "json \<Rightarrow> bool" where
  "plain_item item =
     (item \<noteq> JNull
      \<and> volumes_ok (map (member item) volume_fields)
      \<and> (exact_volume item = None \<longrightarrow> label_ok (member item ''volumeLabel''))
      \<and> label_ok (member item ''difficultyLabel''))"

text \<open>The payload of the specification's normalization example, and its two items.\<close>

definition example_x :: json where
  "example_x = JObj [(''keyword'', JStr ''x''), (''searchVolume'', JNum 120),
                     (''difficultyLabel'', JStr ''EASY'')]"

definition example_y :: json where
  "example_y = JObj [(''keyword'', JStr ''y''), (''volumeLabel'', JStr ''MoreThanTenThousand''),
                     (''difficultyLabel'', JStr ''Unknown'')]"

definition example_payload :: json where
  "example_payload =
     JObj [(''data'', JObj [(''allIdeas'', JObj [(''results'', JArr [example_x])]),
                            (''questionIdeas'', JObj [(''results'', JArr [example_y])])])]"

text \<open>A payload whose second general suggestion is \<^verbatim>\<open>null\<close>.\<close>

definition null_item_payload :: json where
  "null_item_payload =
     JObj [(''data'', JObj [(''allIdeas'', JObj [(''results'', JArr [example_x, JNull])]),
                            (''questionIdeas'', JObj [(''results'', JArr [example_y])])])]"

text \<open>A payload with no general suggestions at all.\<close>

definition questions_only_payload :: json where
  "questions_only_payload =
     JObj [(''data'', JObj [(''questionIdeas'', JObj [(''results'', JArr [example_y])])])]"

text \<open>
  An item whose first volume field holds a text and whose second holds the number 50; an
  item whose first volume field is \<^verbatim>\<open>null\<close> and whose second holds 50 and third 0; a payload
  whose general suggestions are an object, not an array.
\<close>

definition masked_volume_item :: json where
  "masked_volume_item = JObj [(''keyword'', JStr ''w''), (''searchVolume'', JStr ''n/a''),
                              (''volume'', JNum 50)]"

definition null_volume_item :: json where
  "null_volume_item = JObj [(''keyword'', JStr ''v''), (''searchVolume'', JNull),
                            (''volume'', JNum 50), (''monthly_searches'', JNum 0),
                            (''volumeLabel'', JStr [])]"

definition object_results_payload :: json where
  "object_results_payload = JObj [(''data'', JObj [(''allIdeas'', JObj [(''results'', JObj [])])])]"

text \<open>
  A payload whose general suggestions hold that second item and whose question suggestions
  have \<^verbatim>\<open>false\<close> for results.
\<close>

definition tolerated_payload :: json where
  "tolerated_payload =
     JObj [(''data'', JObj [(''allIdeas'', JObj [(''results'', JArr [null_volume_item])]),
                            (''questionIdeas'', JObj [(''results'', JBool False)])])]"

text \<open>An item whose volume label is the empty string.\<close>

definition empty_label_item :: json where
  "empty_label_item = JObj [(''keyword'', JStr ''z''), (''volumeLabel'', JStr [])]"

text \<open>An item whose exact volume is the number 0, with and without a volume label.\<close>

definition zero_volume_item :: json where
  "zero_volume_item = JObj [(''keyword'', JStr ''x''), (''searchVolume'', JNum 0),
                            (''volumeLabel'', JStr ''LessThanOneHundred'')]"

definition zero_volume_only_item :: json where
  "zero_volume_only_item = JObj [(''keyword'', JStr ''x''), (''searchVolume'', JNum 0)]"

subsection \<open>Label formatters\<close>

text \<open>
  The object literal \<^verbatim>\<open>map\<close> of \<^verbatim>\<open>formatVolumeLabel\<close>, and the names every object literal
  inherits from \<^verbatim>\<open>Object.prototype\<close>: \<^verbatim>\<open>map[label]\<close> finds those too, and what it finds there
  (a function, or the prototype itself) is truthy and not a string.
\<close>

definition volume_label_map :: "(string \<times> string) list" where
  "volume_label_map =
     [(''MoreThanHundredThousand'', ''100,000+''),
      (''MoreThanTenThousand'', ''10,000+''),
      (''MoreThanOneThousand'', ''1,000+''),
      (''MoreThanOneHundred'', ''100+''),
      (''LessThanOneHundred'', ''<100'')]"

definition object_prototype_names :: "string list" where
  "object_prototype_names =
     [''constructor'', ''hasOwnProperty'', ''isPrototypeOf'', ''propertyIsEnumerable'',
      ''toLocaleString'', ''toString'', ''valueOf'', ''__proto__'', ''__defineGetter__'',
      ''__defineSetter__'', ''__lookupGetter__'', ''__lookupSetter__'']"

text \<open>What a formatter hands to the renderer: a text, or an inherited member of \<^verbatim>\<open>map\<close>.\<close>

datatype rendered = Text string | InheritedMember string

text \<open>
  \<^verbatim>\<open>if (!label || label === 'Unknown') return 'Unknown'; ... return map[label] || label;\<close>
\<close>

definition formatVolumeLabel :: "string \<Rightarrow> rendered" where
  "formatVolumeLabel label =
     (if label = [] \<or> label = ''Unknown'' then Text ''Unknown''
      else (case map_of volume_label_map label of
              Some human \<Rightarrow> Text human
            | None \<Rightarrow>
                if label \<in> set object_prototype_names then InheritedMember label
                else Text label))"

text \<open>\<^verbatim>\<open>toUpperCase\<close> and \<^verbatim>\<open>toLowerCase\<close>, on ASCII.\<close>

definition upper_char :: "char \<Rightarrow> char" where
  "upper_char c =
     (case map_of (zip ''abcdefghijklmnopqrstuvwxyz'' ''ABCDEFGHIJKLMNOPQRSTUVWXYZ'') c of
        Some u \<Rightarrow> u
      | None \<Rightarrow> c)"

definition lower_char :: "char \<Rightarrow> char" where
  "lower_char c =
     (case map_of (zip ''ABCDEFGHIJKLMNOPQRSTUVWXYZ'' ''abcdefghijklmnopqrstuvwxyz'') c of
        Some l \<Rightarrow> l
      | None \<Rightarrow> c)"

definition toUpperCase :: "string \<Rightarrow> string" where
  "toUpperCase s = map upper_char s"

definition toLowerCase :: "string \<Rightarrow> string" where
  "toLowerCase s = map lower_char s"

text \<open>
  \<^verbatim>\<open>if (!label || label === 'Unknown') return 'Unknown';\<close>
  \<^verbatim>\<open>return label.charAt(0).toUpperCase() + label.slice(1).toLowerCase();\<close>
\<close>

definition formatDifficultyLabel :: "string \<Rightarrow> string" where
  "formatDifficultyLabel label =
     (if label = [] \<or> label = ''Unknown'' then ''Unknown''
      else toUpperCase (take 1 label) @ toLowerCase (drop 1 label))"

subsection \<open>Decimal notation and string conversion\<close>

text \<open>The decimal digits of a number, as a template literal or \<^verbatim>\<open>String\<close> writes them.\<close>

fun show_nat :: "nat \<Rightarrow> string" where
  "show_nat n =
     (if n < 10 then [''0123456789'' ! n]
      else show_nat (n div 10) @ [''0123456789'' ! (n mod 10)])"

declare show_nat.simps [simp del]

definition show_int :: "int \<Rightarrow> string" where
  "show_int i = (if i < 0 then CHR ''-'' # show_nat (nat (- i)) else show_nat (nat i))"

fun join_comma :: "string list \<Rightarrow> string" where
  "join_comma [] = []"
| "join_comma [s] = s"
| "join_comma (s # t # ss) = s @ '','' @ join_comma (t # ss)"

text \<open>
  The conversion to a string that \<^verbatim>\<open>new Error(x)\<close> applies to its argument: an array joins
  its elements with commas (\<^verbatim>\<open>null\<close> as the empty string), an object is
  \<^verbatim>\<open>[object Object]\<close>.
\<close>

fun js_string :: "json \<Rightarrow> string" where
  "js_string JNull = ''null''"
| "js_string (JBool b) = (if b then ''true'' else ''false'')"
| "js_string (JNum n) = show_int n"
| "js_string (JStr s) = s"
| "js_string (JArr xs) = join_comma (map (\<lambda>x. if x = JNull then [] else js_string x) xs)"
| "js_string (JObj fs) = ''[object Object]''"

subsection \<open>The provider call (searchKeywords)\<close>

text \<open>
  A thrown value: an instance of \<^verbatim>\<open>Error\<close> with its message, or anything else. The text of a
  TypeError that the engine raises is the engine's; the model takes it as a parameter
  \<open>engine\<close>.
\<close>

datatype thrown = ErrorObject string | NonError

text \<open>
  The request \<^verbatim>\<open>fetch\<close> is called with: the text that \<^verbatim>\<open>encodeURIComponent\<close> is applied
  to, the fixed country, and the two headers.
\<close>

record request =
  req_keyword :: string
  req_country :: string
  req_key :: string
  req_host :: string

text \<open>
  A response: its status, and what \<^verbatim>\<open>response.json()\<close> settles with (\<^const>\<open>Inl\<close>: it
  rejects: the body is no JSON). \<^verbatim>\<open>response.ok\<close> is a status from 200 to 299.
\<close>

record response =
  status :: nat
  json_result :: "thrown + json"

definition ok :: "response \<Rightarrow> bool" where
  "ok r = (200 \<le> status r \<and> status r \<le> 299)"

datatype fetch_result = Rejected thrown | Resolved response

definition RAPIDAPI_HOST :: string where
  "RAPIDAPI_HOST = ''ahrefs-dr-rank-checker.p.rapidapi.com''"

definition key_not_configured :: string where
  "key_not_configured =
     ''RapidAPI key not configured. Please add VITE_RAPIDAPI_KEY to your environment variables.''"

text \<open>
  Lines 61 to 74: the guard on the credential, then the call of \<^verbatim>\<open>fetch\<close>. \<^const>\<open>Inl\<close>: thrown
  before any request; \<^const>\<open>Inr\<close>: the one request issued. The credential
  \<^verbatim>\<open>import.meta.env.VITE_RAPIDAPI_KEY\<close> is a string or \<^verbatim>\<open>undefined\<close>.
\<close>

definition searchKeywords_request :: "string option \<Rightarrow> string \<Rightarrow> thrown + request" where
  "searchKeywords_request RAPIDAPI_KEY searchQuery =
     (case RAPIDAPI_KEY of
        None \<Rightarrow> Inl (ErrorObject key_not_configured)
      | Some k \<Rightarrow>
          if k = [] then Inl (ErrorObject key_not_configured)
          else Inr \<lparr> req_keyword = searchQuery, req_country = ''us'', req_key = k,
                     req_host = RAPIDAPI_HOST \<rparr>)"

definition status_message :: "nat \<Rightarrow> string" where
  "status_message code = ''API request failed with status '' @ show_nat code"

text \<open>
  Lines 76 to 101, once \<^verbatim>\<open>fetch\<close> has settled. On a response that is not ok:
  \<^verbatim>\<open>errorData = await response.json().catch(() => ({}))\<close> and
  \<^verbatim>\<open>throw new Error(errorData.message || `API request failed with status ${response.status}`)\<close>.
  Everything thrown is caught, logged and thrown again.
\<close>

definition searchKeywords_response ::
  "(type_error \<Rightarrow> string) \<Rightarrow> fetch_result \<Rightarrow> thrown + keyword list" where
  "searchKeywords_response engine fr =
     (case fr of
        Rejected e \<Rightarrow> Inl e
      | Resolved r \<Rightarrow>
          if \<not> ok r then
            (let errorData = (case json_result r of Inl e \<Rightarrow> JObj [] | Inr j \<Rightarrow> j)
             in case get_prop errorData ''message'' of
                  Inl te \<Rightarrow> Inl (ErrorObject (engine te))
                | Inr message \<Rightarrow>
                    Inl (ErrorObject
                          (case message of
                             None \<Rightarrow> status_message (status r)
                           | Some m \<Rightarrow>
                               if truthy m then js_string m else status_message (status r))))
          else
            (case json_result r of
               Inl e \<Rightarrow> Inl e
             | Inr data \<Rightarrow>
                 (case searchKeywords_payload data of
                    Inl te \<Rightarrow> Inl (ErrorObject (engine te))
                  | Inr ks \<Rightarrow> Inr ks)))"

subsection \<open>The component state and handleSearch\<close>

text \<open>
  The six \<^verbatim>\<open>useState\<close> cells (\<open>keywordList\<close> is the cell \<^verbatim>\<open>keywords\<close>), and the pending
  debounce timer: the time it fires at and the value of \<^verbatim>\<open>query\<close> its callback closes over.
\<close>

record panel =
  query :: string
  debouncedQuery :: string
  keywordList :: "keyword list"
  isLoading :: bool
  error :: "string option"
  bookmarked :: "string list"
  timer :: "(nat \<times> string) option"

text \<open>\<^verbatim>\<open>String.prototype.trim\<close>, on ASCII: white space and line terminators.\<close>

definition is_space :: "char \<Rightarrow> bool" where
  "is_space c = (c \<in> set [CHR 0x09, CHR 0x0A, CHR 0x0B, CHR 0x0C, CHR 0x0D, CHR 0x20])"

definition trim :: "string \<Rightarrow> string" where
  "trim s = rev (dropWhile is_space (rev (dropWhile is_space s)))"

text \<open>
  The part of \<^verbatim>\<open>handleSearch\<close> after the \<^verbatim>\<open>await\<close>: the \<^verbatim>\<open>try\<close> body on a result, the
  \<^verbatim>\<open>catch\<close> on a thrown value, then the \<^verbatim>\<open>finally\<close>. It reads nothing that would tell which
  invocation it belongs to.
\<close>

definition handleSearch_settle :: "thrown + keyword list \<Rightarrow> panel \<Rightarrow> panel" where
  "handleSearch_settle outcome s =
     (case outcome of
        Inr results \<Rightarrow>
          s\<lparr> keywordList := results,
             error := (if results = [] then Some ''No keywords found for this query''
                       else error s),
             isLoading := False \<rparr>
      | Inl err \<Rightarrow>
          s\<lparr> error := Some (case err of
                              ErrorObject m \<Rightarrow> m
                            | NonError \<Rightarrow> ''An error occurred while searching''),
             isLoading := False \<rparr>)"

text \<open>
  The part of \<^verbatim>\<open>handleSearch\<close> up to the \<^verbatim>\<open>await\<close>, with the request it issues, if any.
  \<^verbatim>\<open>queryToSearch = searchQuery || query\<close>. When \<^verbatim>\<open>searchKeywords\<close> throws before its
  \<^verbatim>\<open>fetch\<close>, the promise is already rejected and the continuation runs before any other
  event.
\<close>

definition handleSearch_begin ::
  "string option \<Rightarrow> string option \<Rightarrow> panel \<Rightarrow> panel \<times> request option" where
  "handleSearch_begin RAPIDAPI_KEY searchQuery s =
     (let queryToSearch =
            (case searchQuery of None \<Rightarrow> query s | Some q \<Rightarrow> if q \<noteq> [] then q else query s)
      in if trim queryToSearch = [] then
           (s\<lparr> error := Some ''Please enter a search term'' \<rparr>, None)
         else
           (let s1 = s\<lparr> isLoading := True, error := None, keywordList := [] \<rparr>
            in case searchKeywords_request RAPIDAPI_KEY queryToSearch of
                 Inl e \<Rightarrow> (handleSearch_settle (Inl e) s1, None)
               | Inr req \<Rightarrow> (s1, Some req)))"

text \<open>The response to a request arrives: \<^verbatim>\<open>searchKeywords\<close> resumes, then \<^verbatim>\<open>handleSearch\<close>.\<close>

definition handleSearch_resume :: "(type_error \<Rightarrow> string) \<Rightarrow> fetch_result \<Rightarrow> panel \<Rightarrow> panel" where
  "handleSearch_resume engine fr s = handleSearch_settle (searchKeywords_response engine fr) s"

text \<open>The effect on \<^verbatim>\<open>[debouncedQuery]\<close> (lines 51 to 58).\<close>

definition auto_search :: "string option \<Rightarrow> panel \<Rightarrow> panel \<times> request option" where
  "auto_search RAPIDAPI_KEY s =
     (if trim (debouncedQuery s) \<noteq> [] then
        handleSearch_begin RAPIDAPI_KEY (Some (debouncedQuery s)) s
      else (s\<lparr> keywordList := [], error := None \<rparr>, None))"

subsection \<open>The debounce effect\<close>

text \<open>
  Time reaches \<open>t\<close>: a pending timer whose 300 units have passed runs its callback
  \<^verbatim>\<open>setDebouncedQuery(query)\<close>. The second component lists the values committed.
\<close>

definition elapse :: "nat \<Rightarrow> panel \<Rightarrow> panel \<times> string list" where
  "elapse t s =
     (case timer s of
        None \<Rightarrow> (s, [])
      | Some (due, v) \<Rightarrow>
          if due \<le> t then (s\<lparr> debouncedQuery := v, timer := None \<rparr>, [v]) else (s, []))"

text \<open>
  An edit at time \<open>t\<close>: \<^verbatim>\<open>onChange\<close> calls \<^verbatim>\<open>setQuery(v)\<close>. When the value differs from
  \<^verbatim>\<open>query\<close> the effect on \<^verbatim>\<open>[query]\<close> (lines 42 to 48) runs again: its cleanup clears the
  pending timer and a new one is set for \<open>t + 300\<close>. Setting the value \<^verbatim>\<open>query\<close> already has
  changes nothing.
\<close>

definition onChange :: "nat \<Rightarrow> string \<Rightarrow> panel \<Rightarrow> panel \<times> string list" where
  "onChange t v s =
     (let (s1, committed) = elapse t s
      in if v = query s1 then (s1, committed)
         else (s1\<lparr> query := v, timer := Some (t + 300, v) \<rparr>, committed))"

fun run_edits :: "(nat \<times> string) list \<Rightarrow> panel \<Rightarrow> panel \<times> string list" where
  "run_edits [] s = (s, [])"
| "run_edits ((t, v) # es) s =
     (let (s1, c1) = onChange t v s; (s2, c2) = run_edits es s1 in (s2, c1 @ c2))"

text \<open>The edits \<open>es\<close> are made, then time runs on to \<open>T\<close>; with every value committed on the way.\<close>

definition run_until :: "nat \<Rightarrow> (nat \<times> string) list \<Rightarrow> panel \<Rightarrow> panel \<times> string list" where
  "run_until T es s =
     (let (s1, c1) = run_edits es s; (s2, c2) = elapse T s1 in (s2, c1 @ c2))"

text \<open>Each edit arrives no earlier than the one before it and less than 300 units after it.\<close>

fun rapid :: "(nat \<times> string) list \<Rightarrow> bool" where
  "rapid ((t, v) # (t', v') # es) = (t \<le> t' \<and> t' < t + 300 \<and> rapid ((t', v') # es))"
| "rapid es = True"

text \<open>Each edit changes the text: the first one the text \<open>q\<close>, every other one the text before it.\<close>

fun edits_from :: "string \<Rightarrow> (nat \<times> string) list \<Rightarrow> bool" where
  "edits_from q [] = True"
| "edits_from q ((t, v) # es) = (v \<noteq> q \<and> edits_from v es)"

subsection \<open>Worked examples\<close>

text \<open>
  The panel after mounting, once the timer set at the first render has fired: nothing typed,
  nothing shown, no timer pending.
\<close>

definition initial_panel :: panel where
  "initial_panel =
     \<lparr> query = [], debouncedQuery = [], keywordList = [], isLoading = False, error = None,
       bookmarked = [], timer = None \<rparr>"

text \<open>The TypeError texts of one engine, for the examples.\<close>

definition engine_texts :: "type_error \<Rightarrow> string" where
  "engine_texts te =
     (case te of
        PropertyOfNull k \<Rightarrow> ''Cannot read properties of null (reading '' @ k @ '')''
      | NotIterable \<Rightarrow> ''object is not iterable'')"

text \<open>A successful response with the given body, and a failed one.\<close>

definition success :: "json \<Rightarrow> fetch_result" where
  "success payload = Resolved \<lparr> status = 200, json_result = Inr payload \<rparr>"

definition failure :: "nat \<Rightarrow> thrown + json \<Rightarrow> fetch_result" where
  "failure code b = Resolved \<lparr> status = code, json_result = b \<rparr>"

text \<open>
  Two overlapping searches: \<open>qa\<close> is submitted, then \<open>qb\<close> before the response to \<open>qa\<close> has
  arrived; the response \<open>fb\<close> to \<open>qb\<close> arrives first, the response \<open>fa\<close> to \<open>qa\<close> after it.
\<close>

definition overlapping_searches ::
  "string option \<Rightarrow> (type_error \<Rightarrow> string) \<Rightarrow> string \<Rightarrow> string \<Rightarrow> fetch_result \<Rightarrow> fetch_result
     \<Rightarrow> panel \<Rightarrow> panel" where
  "overlapping_searches RAPIDAPI_KEY engine qa qb fa fb s =
     (let (s1, ra) = handleSearch_begin RAPIDAPI_KEY (Some qa) s;
          (s2, rb) = handleSearch_begin RAPIDAPI_KEY (Some qb) s1;
          s3 = handleSearch_resume engine fb s2
      in handleSearch_resume engine fa s3)"

subsection \<open>Bookmarks\<close>

text \<open>
  \<^verbatim>\<open>toggleBookmark\<close>, the updater passed to \<^verbatim>\<open>setBookmarked\<close>:
  \<^verbatim>\<open>prev.includes(term) ? prev.filter((t) => t !== term) : [...prev, term]\<close>.
\<close>

definition toggleBookmark :: "string \<Rightarrow> string list \<Rightarrow> string list" where
  "toggleBookmark term prev =
     (if term \<in> set prev then filter (\<lambda>t. t \<noteq> term) prev else prev @ [term])"

section \<open>Properties\<close>

subsection \<open>Response normalizer\<close>

lemma collection_read:
  assumes "body \<noteq> JNull" and "collection_ok body name"
  shows "spread (or_default (opt_chain (opt_chain (member body ''data'') name) ''results'') (JArr []))
         = Inr (results_or_empty body name)"
proof (cases "member body ''data''")
  case None
  then show ?thesis
    by (simp add: opt_chain_def or_default_def results_or_empty_def results_array_def)
next
  case (Some d)
  show ?thesis
  proof (cases "member d name")
    case None
    with Some show ?thesis
      by (simp add: opt_chain_def or_default_def results_or_empty_def results_array_def)
  next
    case c: (Some c)
    show ?thesis
    proof (cases "member c ''results''")
      case None
      with Some c show ?thesis
        by (simp add: opt_chain_def or_default_def results_or_empty_def results_array_def)
    next
      case r: (Some r)
      from assms(2) Some c r have "(\<exists>xs. r = JArr xs) \<or> \<not> truthy r"
        by (auto simp: collection_ok_def split: json.splits)
      then show ?thesis
      proof
        assume "\<exists>xs. r = JArr xs"
        with Some c r show ?thesis
          by (auto simp: opt_chain_def or_default_def results_or_empty_def results_array_def)
      next
        assume falsy: "\<not> truthy r"
        then have read: "or_default (Some r) (JArr []) = JArr []"
          by (simp add: or_default_def)
        from falsy have "results_array body name = None"
          using Some c r by (cases r) (simp_all add: results_array_def)
        then have none: "results_or_empty body name = []"
          by (simp add: results_or_empty_def)
        have "opt_chain (opt_chain (member body ''data'') name) ''results'' = Some r \<or>
              opt_chain (opt_chain (member body ''data'') name) ''results'' = None"
          using Some c r by (simp add: opt_chain_def)
        then show ?thesis
          using read none by (auto simp: or_default_def)
      qed
    qed
  qed
qed

lemma payload_collections:
  assumes "body \<noteq> JNull" and "collections_ok body"
  shows "searchKeywords_payload body
         = map_items (results_or_empty body ''allIdeas'' @ results_or_empty body ''questionIdeas'')"
proof -
  from assms(2) have a: "collection_ok body ''allIdeas''"
    and q: "collection_ok body ''questionIdeas''"
    by (simp_all add: collections_ok_def)
  show ?thesis
    using assms(1) collection_read [OF assms(1) a] collection_read [OF assms(1) q]
    by (simp add: searchKeywords_payload_def get_prop_def Let_def)
qed

lemma js_or_chain: "js_or (js_or a b) c = or_chain [a, b, c]"
  by (simp add: js_or_def split: option.splits)

lemma js_or_truthy: "truthy v \<Longrightarrow> js_or (Some v) r = Some v"
  by (simp add: js_or_def)

lemma js_or_falsy: "\<not> truthy v \<Longrightarrow> js_or (Some v) r = r"
  by (simp add: js_or_def)

lemma js_or_None: "js_or None r = r"
  by (simp add: js_or_def)

lemma or_chain_truthy: "truthy v \<Longrightarrow> or_chain (Some v # vs) = Some v"
  by (cases vs) (simp_all add: js_or_truthy)

lemma or_chain_None: "vs \<noteq> [] \<Longrightarrow> or_chain (None # vs) = or_chain vs"
  by (cases vs) (simp_all add: js_or_None)

lemma or_chain_falsy: "\<not> truthy v \<Longrightarrow> vs \<noteq> [] \<Longrightarrow> or_chain (Some v # vs) = or_chain vs"
  by (cases vs) (simp_all add: js_or_falsy)

lemma number_picked:
  "volumes_ok vs \<Longrightarrow>
   (case or_chain vs of Some (JNum n) \<Rightarrow> Some n | _ \<Rightarrow> None) = first_number vs"
proof (induction vs)
  case Nil
  then show ?case by simp
next
  case (Cons a vs)
  show ?case
  proof (cases a)
    case None
    with Cons show ?thesis
      by (cases "vs = []") (simp_all add: or_chain_None)
  next
    case (Some v)
    show ?thesis
    proof (cases "\<exists>n. v = JNum n")
      case True
      then obtain n where n: "v = JNum n" by blast
      with Cons.prems Some have "n \<noteq> 0" by simp
      then have "truthy v" by (simp add: n)
      then show ?thesis
        by (simp add: Some or_chain_truthy n)
    next
      case False
      then have skip: "first_number (Some v # vs) = first_number vs"
        by (cases v) simp_all
      from False have ok: "volumes_ok (Some v # vs)
                           = (if truthy v then first_number vs = None else volumes_ok vs)"
        by (cases v) simp_all
      show ?thesis
      proof (cases "truthy v")
        case True
        with Cons.prems ok Some have "first_number vs = None" by simp
        moreover have "or_chain (a # vs) = Some v"
          by (simp add: Some or_chain_truthy True)
        ultimately show ?thesis
          using False skip Some by (cases v) simp_all
      next
        case falsy: False
        with Cons.prems ok Some have rest: "volumes_ok vs" by simp
        show ?thesis
        proof (cases "vs = []")
          case True
          with False Some show ?thesis by (cases v) simp_all
        next
          case nonempty: False
          then have "or_chain (a # vs) = or_chain vs"
            by (simp add: Some or_chain_falsy falsy)
          then show ?thesis
            using Cons.IH [OF rest] skip Some by simp
        qed
      qed
    qed
  qed
qed

lemma or_default_truthy:
  assumes "label_ok a"
  shows "or_default a d = (case a of None \<Rightarrow> d | Some v \<Rightarrow> v)"
  using assms by (cases a) (simp_all add: or_default_def label_ok_def)

lemma volume_choice:
  assumes "volumes_ok [a, b, c]" and "first_number [a, b, c] = None \<longrightarrow> label_ok l"
  shows "(case js_or (js_or a b) c of Some (JNum n) \<Rightarrow> JNum n | _ \<Rightarrow> or_default l d)
         = (case first_number [a, b, c] of
              Some n \<Rightarrow> JNum n
            | None \<Rightarrow> (case l of Some x \<Rightarrow> x | None \<Rightarrow> d))"
proof -
  let ?x = "or_chain [a, b, c]"
  have pick: "(case ?x of Some (JNum n) \<Rightarrow> Some n | _ \<Rightarrow> None) = first_number [a, b, c]"
    by (rule number_picked [OF assms(1)])
  show ?thesis
  proof (cases "first_number [a, b, c]")
    case None
    with assms(2) have "label_ok l" by simp
    then have lab: "or_default l d = (case l of None \<Rightarrow> d | Some v \<Rightarrow> v)"
      by (rule or_default_truthy)
    from pick None have "(case ?x of Some (JNum n) \<Rightarrow> JNum n | _ \<Rightarrow> or_default l d) = or_default l d"
      by (cases ?x rule: option.exhaust [case_names N S]) (auto split: json.splits)
    then show ?thesis
      unfolding js_or_chain None lab by simp
  next
    case (Some n)
    with pick have "?x = Some (JNum n)"
      by (auto split: option.splits json.splits)
    then show ?thesis
      unfolding js_or_chain Some by simp
  qed
qed

lemma to_keyword_plain:
  assumes "plain_item item"
  shows "to_keyword item = Inr (spec_keyword item)"
proof -
  from assms have nn: "item \<noteq> JNull"
    and vs: "volumes_ok [member item ''searchVolume'', member item ''volume'',
                         member item ''monthly_searches'']"
    and vl: "first_number [member item ''searchVolume'', member item ''volume'',
                           member item ''monthly_searches''] = None
             \<longrightarrow> label_ok (member item ''volumeLabel'')"
    and dl: "label_ok (member item ''difficultyLabel'')"
    by (simp_all add: plain_item_def volume_fields_def exact_volume_def)
  have dlab: "or_default (member item ''difficultyLabel'') (JStr ''Unknown'')
              = (case member item ''difficultyLabel'' of None \<Rightarrow> JStr ''Unknown'' | Some l \<Rightarrow> l)"
    by (rule or_default_truthy [OF dl])
  have vol: "(case js_or (js_or (member item ''searchVolume'') (member item ''volume''))
                     (member item ''monthly_searches'') of
                Some (JNum n) \<Rightarrow> JNum n
              | _ \<Rightarrow> or_default (member item ''volumeLabel'') (JStr ''Unknown''))
             = (case exact_volume item of
                  Some n \<Rightarrow> JNum n
                | None \<Rightarrow> (case member item ''volumeLabel'' of
                             Some l \<Rightarrow> l
                           | None \<Rightarrow> JStr ''Unknown''))"
    unfolding exact_volume_def volume_fields_def list.map
    by (rule volume_choice [OF vs vl])
  show ?thesis
    using nn by (simp add: to_keyword_def get_prop_def Let_def vol dlab spec_keyword_def)
qed

lemma map_items_plain:
  "\<forall>item \<in> set xs. plain_item item \<Longrightarrow> map_items xs = Inr (map spec_keyword xs)"
  by (induction xs) (simp_all add: to_keyword_plain)


lemmas example_defs =
  example_payload_def example_x_def example_y_def null_item_payload_def
  questions_only_payload_def zero_volume_item_def zero_volume_only_item_def
  empty_label_item_def masked_volume_item_def null_volume_item_def object_results_payload_def
  tolerated_payload_def

lemmas payload_eval =
  searchKeywords_payload_def get_prop_def opt_chain_def or_default_def js_or_def
  to_keyword_def Let_def

lemmas shape_eval =
  collections_ok_def collection_ok_def lacks_def results_array_def results_or_empty_def
  plain_item_def label_ok_def volume_fields_def spec_keyword_def exact_volume_def

text \<open>
  C2, as amended. Take a body that is not \<^verbatim>\<open>null\<close>, whose two collections are each missing,
  an array or a falsy value, and whose items are plain: not \<^verbatim>\<open>null\<close>; the first volume
  field that holds a number holds a number other than 0, with no truthy value that is not a
  number in a field before it; the difficulty label, and the volume label where no volume
  field holds a number, absent or non-empty. The normalizer returns the items of the general
  suggestions followed by those of the question suggestions, each in the provider's order,
  every item mapped to its keyword field, its exact numeric volume if present else its volume
  label else \<open>Unknown\<close>, and its difficulty label else \<open>Unknown\<close>; nothing is sorted, dropped
  or merged.
\<close>

theorem searchKeywords_payload_order_and_fields:
  assumes "body \<noteq> JNull"
    and "collections_ok body"
    and "\<forall>item \<in> set (results_or_empty body ''allIdeas'' @ results_or_empty body ''questionIdeas'').
           plain_item item"
  shows "searchKeywords_payload body
         = Inr (map spec_keyword (results_or_empty body ''allIdeas'')
                @ map spec_keyword (results_or_empty body ''questionIdeas''))"
proof -
  have "searchKeywords_payload body
        = map_items (results_or_empty body ''allIdeas'' @ results_or_empty body ''questionIdeas'')"
    by (rule payload_collections [OF assms(1,2)])
  also have "\<dots> = Inr (map spec_keyword
                        (results_or_empty body ''allIdeas'' @ results_or_empty body ''questionIdeas''))"
    by (rule map_items_plain [OF assms(3)])
  finally show ?thesis by simp
qed

theorem searchKeywords_payload_order_and_fields_witness:
  "example_payload \<noteq> JNull
   \<and> collections_ok example_payload
   \<and> results_or_empty example_payload ''allIdeas'' = [example_x]
   \<and> results_or_empty example_payload ''questionIdeas'' = [example_y]
   \<and> plain_item example_x \<and> plain_item example_y
   \<and> searchKeywords_payload example_payload
     = Inr [\<lparr> kterm = Some (JStr ''x''), volume = JNum 120, difficulty = JStr ''EASY'' \<rparr>,
            \<lparr> kterm = Some (JStr ''y''), volume = JStr ''MoreThanTenThousand'',
              difficulty = JStr ''Unknown'' \<rparr>]
   \<and> tolerated_payload \<noteq> JNull
   \<and> collections_ok tolerated_payload
   \<and> results_or_empty tolerated_payload ''allIdeas'' = [null_volume_item]
   \<and> results_or_empty tolerated_payload ''questionIdeas'' = []
   \<and> plain_item null_volume_item
   \<and> searchKeywords_payload tolerated_payload
     = Inr [\<lparr> kterm = Some (JStr ''v''), volume = JNum 50, difficulty = JStr ''Unknown'' \<rparr>]"
proof -
  have h1: "example_payload \<noteq> JNull"
    by (simp add: example_defs)
  have h2: "collections_ok example_payload"
    by (simp add: example_defs shape_eval)
  have h3: "\<forall>item \<in> set (results_or_empty example_payload ''allIdeas''
                          @ results_or_empty example_payload ''questionIdeas''). plain_item item"
    by (simp add: example_defs shape_eval)
  have t1: "tolerated_payload \<noteq> JNull"
    by (simp add: example_defs)
  have t2: "collections_ok tolerated_payload"
    by (simp add: example_defs shape_eval)
  have t3: "\<forall>item \<in> set (results_or_empty tolerated_payload ''allIdeas''
                          @ results_or_empty tolerated_payload ''questionIdeas''). plain_item item"
    by (simp add: example_defs shape_eval)
  show ?thesis
    using h1 h2 h3 t1 t2 t3
      searchKeywords_payload_order_and_fields [OF h1 h2 h3]
      searchKeywords_payload_order_and_fields [OF t1 t2 t3]
    by (simp add: example_defs shape_eval)
qed

text \<open>
  C2 as written fails in each of these ways. A payload that holds a \<^verbatim>\<open>null\<close> item, a body
  that is \<^verbatim>\<open>null\<close>, and a collection whose results are an object make the normalizer throw,
  so that it returns no list at all. An item whose volume label is the empty string gets the
  volume \<open>Unknown\<close>, not the label. An item whose first volume field holds a text gets its
  label or \<open>Unknown\<close> although its second volume field holds the number 50.
\<close>

theorem searchKeywords_payload_null_item_counterexample:
  "searchKeywords_payload null_item_payload = Inl (PropertyOfNull ''searchVolume'')
   \<and> searchKeywords_payload JNull = Inl (PropertyOfNull ''data'')
   \<and> searchKeywords_payload object_results_payload = Inl NotIterable
   \<and> member empty_label_item ''volumeLabel'' = Some (JStr [])
   \<and> to_keyword empty_label_item
     = Inr \<lparr> kterm = Some (JStr ''z''), volume = JStr ''Unknown'',
             difficulty = JStr ''Unknown'' \<rparr>
   \<and> exact_volume masked_volume_item = Some 50
   \<and> to_keyword masked_volume_item
     = Inr \<lparr> kterm = Some (JStr ''w''), volume = JStr ''Unknown'',
             difficulty = JStr ''Unknown'' \<rparr>"
  by (simp add: example_defs payload_eval exact_volume_def volume_fields_def)

text \<open>
  C3. On an item whose highest-priority volume field \<^verbatim>\<open>searchVolume\<close> is the number 0, the
  code does not assign volume 0: the chain of \<^verbatim>\<open>||\<close> skips the falsy 0, so the volume is the
  coarse label when there is one and \<open>Unknown\<close> otherwise.
\<close>

theorem to_keyword_zero_volume:
  "exact_volume zero_volume_item = Some 0
   \<and> to_keyword zero_volume_item
     = Inr \<lparr> kterm = Some (JStr ''x''), volume = JStr ''LessThanOneHundred'',
             difficulty = JStr ''Unknown'' \<rparr>
   \<and> exact_volume zero_volume_only_item = Some 0
   \<and> to_keyword zero_volume_only_item
     = Inr \<lparr> kterm = Some (JStr ''x''), volume = JStr ''Unknown'',
             difficulty = JStr ''Unknown'' \<rparr>"
  by (simp add: example_defs payload_eval exact_volume_def volume_fields_def)




subsection \<open>Label formatters\<close>

text \<open>
  C7, as amended. The volume-label formatter maps the five known tokens to \<open>100,000+\<close>,
  \<open>10,000+\<close>, \<open>1,000+\<close>, \<open>100+\<close> and \<open><100\<close>, maps the empty label to \<open>Unknown\<close>, and
  returns every other non-empty label unchanged, provided the label is not the name of a
  member that the lookup object inherits. The difficulty formatter maps the empty label to
  \<open>Unknown\<close>, returns \<open>Unknown\<close> unchanged, and puts the first character of a non-empty label
  in upper case and the rest in lower case.
\<close>

theorem format_labels:
  "formatVolumeLabel ''MoreThanHundredThousand'' = Text ''100,000+''
   \<and> formatVolumeLabel ''MoreThanTenThousand'' = Text ''10,000+''
   \<and> formatVolumeLabel ''MoreThanOneThousand'' = Text ''1,000+''
   \<and> formatVolumeLabel ''MoreThanOneHundred'' = Text ''100+''
   \<and> formatVolumeLabel ''LessThanOneHundred'' = Text ''<100''
   \<and> formatVolumeLabel [] = Text ''Unknown''
   \<and> (label \<noteq> [] \<and> label \<notin> set (map fst volume_label_map)
        \<and> label \<notin> set object_prototype_names \<longrightarrow> formatVolumeLabel label = Text label)
   \<and> formatDifficultyLabel [] = ''Unknown''
   \<and> formatDifficultyLabel ''Unknown'' = ''Unknown''
   \<and> formatDifficultyLabel (c # cs) = upper_char c # map lower_char cs"
proof -
  have known: "formatVolumeLabel ''MoreThanHundredThousand'' = Text ''100,000+''"
    "formatVolumeLabel ''MoreThanTenThousand'' = Text ''10,000+''"
    "formatVolumeLabel ''MoreThanOneThousand'' = Text ''1,000+''"
    "formatVolumeLabel ''MoreThanOneHundred'' = Text ''100+''"
    "formatVolumeLabel ''LessThanOneHundred'' = Text ''<100''"
    "formatVolumeLabel [] = Text ''Unknown''"
    by (simp_all add: formatVolumeLabel_def volume_label_map_def)
  have other: "formatVolumeLabel label = Text label"
    if "label \<noteq> []" "label \<notin> set (map fst volume_label_map)"
      "label \<notin> set object_prototype_names"
  proof -
    from that(2) have "map_of volume_label_map label = None"
      by (simp add: map_of_eq_None_iff)
    with that(1,3) show ?thesis
      by (simp add: formatVolumeLabel_def)
  qed
  have diff: "formatDifficultyLabel [] = ''Unknown''"
    "formatDifficultyLabel ''Unknown'' = ''Unknown''"
    by (simp_all add: formatDifficultyLabel_def)
  have title: "formatDifficultyLabel (c # cs) = upper_char c # map lower_char cs"
  proof (cases "c # cs = ''Unknown''")
    case True
    then have "c = CHR ''U''" "cs = ''nknown''" by simp_all
    then show ?thesis
      by (simp add: formatDifficultyLabel_def upper_char_def lower_char_def)
  next
    case False
    then have "\<not> (c # cs = [] \<or> c # cs = ''Unknown'')" by blast
    then have "formatDifficultyLabel (c # cs)
               = toUpperCase (take 1 (c # cs)) @ toLowerCase (drop 1 (c # cs))"
      unfolding formatDifficultyLabel_def by (rule if_not_P)
    then show ?thesis
      by (simp add: toUpperCase_def toLowerCase_def)
  qed
  from known other diff title show ?thesis by blast
qed

theorem format_labels_witness:
  "''Huge'' \<noteq> [] \<and> ''Huge'' \<notin> set (map fst volume_label_map)
   \<and> ''Huge'' \<notin> set object_prototype_names
   \<and> formatVolumeLabel ''Huge'' = Text ''Huge''
   \<and> formatDifficultyLabel ''EASY'' = ''Easy''
   \<and> formatDifficultyLabel ''hard'' = ''Hard''"
  using format_labels [of "''Huge''" "CHR ''E''" "''ASY''"]
    format_labels [of "''Huge''" "CHR ''h''" "''ard''"]
  by (simp add: volume_label_map_def object_prototype_names_def upper_char_def lower_char_def)

text \<open>
  C7 as written fails on the empty label: neither formatter returns it unchanged, both
  return \<open>Unknown\<close>.
\<close>

theorem format_labels_empty_counterexample:
  "formatVolumeLabel [] \<noteq> Text []
   \<and> formatDifficultyLabel [] \<noteq> toUpperCase (take 1 []) @ toLowerCase (drop 1 [])"
  by (simp add: formatVolumeLabel_def formatDifficultyLabel_def toUpperCase_def toLowerCase_def)

subsection \<open>Provider errors\<close>

lemma resume_error:
  "searchKeywords_response engine fr = Inl (ErrorObject m) \<Longrightarrow>
   error (handleSearch_resume engine fr s) = Some m"
  by (simp add: handleSearch_resume_def handleSearch_settle_def)

text \<open>
  C6, as amended. After a response that is not ok, the error shown is the \<open>message\<close> field of
  the body when that field is a non-empty string; it is
  \<open>API request failed with status\<close> followed by the status code when the body is no JSON, or
  has no \<open>message\<close> field, or has the empty string there.
\<close>

theorem provider_error_message:
  assumes "\<not> (200 \<le> code \<and> code \<le> 299)"
  shows "(j \<noteq> JNull \<and> member j ''message'' = Some (JStr m) \<and> m \<noteq> []
            \<longrightarrow> error (handleSearch_resume engine (failure code (Inr j)) s) = Some m)
         \<and> (j \<noteq> JNull \<and> (member j ''message'' = None \<or> member j ''message'' = Some (JStr []))
            \<longrightarrow> error (handleSearch_resume engine (failure code (Inr j)) s)
                = Some (''API request failed with status '' @ show_nat code))
         \<and> error (handleSearch_resume engine (failure code (Inl e)) s)
           = Some (''API request failed with status '' @ show_nat code)"
proof -
  have nok: "\<not> ok \<lparr> status = code, json_result = b \<rparr>" for b
    using assms by (simp add: ok_def)
  have verbatim: "searchKeywords_response engine (failure code (Inr j)) = Inl (ErrorObject m)"
    if "j \<noteq> JNull" "member j ''message'' = Some (JStr m)" "m \<noteq> []"
    using that nok by (simp add: searchKeywords_response_def failure_def get_prop_def)
  have generic: "searchKeywords_response engine (failure code (Inr j))
                 = Inl (ErrorObject (''API request failed with status '' @ show_nat code))"
    if "j \<noteq> JNull" "member j ''message'' = None \<or> member j ''message'' = Some (JStr [])"
    using that nok
    by (auto simp: searchKeywords_response_def failure_def get_prop_def status_message_def)
  have nobody: "searchKeywords_response engine (failure code (Inl e))
                 = Inl (ErrorObject (''API request failed with status '' @ show_nat code))"
    using nok
    by (simp add: searchKeywords_response_def failure_def get_prop_def status_message_def)
  show ?thesis
    using verbatim generic nobody by (simp add: resume_error)
qed

theorem provider_error_message_witness:
  "\<not> (200 \<le> (429::nat) \<and> (429::nat) \<le> 299)
   \<and> error (handleSearch_resume engine_texts
              (failure 429 (Inr (JObj [(''message'', JStr ''quota exceeded'')]))) initial_panel)
     = Some ''quota exceeded''
   \<and> error (handleSearch_resume engine_texts (failure 429 (Inr (JObj []))) initial_panel)
     = Some ''API request failed with status 429''
   \<and> error (handleSearch_resume engine_texts
              (failure 429 (Inl (ErrorObject ''Unexpected end of JSON input''))) initial_panel)
     = Some ''API request failed with status 429''"
proof -
  have h: "\<not> (200 \<le> (429::nat) \<and> (429::nat) \<le> 299)" by simp
  show ?thesis
    using h
      provider_error_message [OF h, of "JObj [(''message'', JStr ''quota exceeded'')]"
        "''quota exceeded''" engine_texts initial_panel "ErrorObject ''Unexpected end of JSON input''"]
      provider_error_message [OF h, of "JObj []" "[]" engine_texts initial_panel
        "ErrorObject ''Unexpected end of JSON input''"]
    by (simp add: show_nat.simps)
qed

text \<open>
  C6 as written fails at status 500: with the body \<^verbatim>\<open>{"message": ""}\<close> the field is present
  and the error shown is not that field but the generic text; and the generic text, also
  shown when the body is no JSON, starts with \<open>API\<close>.
\<close>

theorem provider_error_message_counterexample:
  "error (handleSearch_resume engine_texts
            (failure 500 (Inr (JObj [(''message'', JStr [])]))) initial_panel)
   = Some ''API request failed with status 500''
   \<and> error (handleSearch_resume engine_texts
              (failure 500 (Inl (ErrorObject ''Unexpected end of JSON input''))) initial_panel)
     = Some ''API request failed with status 500''
   \<and> ''API request failed with status 500'' \<noteq> ''request failed with status 500''"
  by (simp add: handleSearch_resume_def handleSearch_settle_def searchKeywords_response_def
      failure_def ok_def get_prop_def status_message_def show_nat.simps)

subsection \<open>Search orchestration\<close>

lemma trim_nonempty: "trim q \<noteq> [] \<Longrightarrow> q \<noteq> []"
  by (auto simp: trim_def)

lemma begin_without_key:
  assumes "trim q \<noteq> []" and "key = None \<or> key = Some []"
    and "searchQuery = Some q \<or> ((searchQuery = None \<or> searchQuery = Some []) \<and> query s = q)"
  shows "handleSearch_begin key searchQuery s
         = (s\<lparr> isLoading := False, error := Some key_not_configured, keywordList := [] \<rparr>, None)"
proof -
  have q: "q \<noteq> []" by (rule trim_nonempty [OF assms(1)])
  have req: "searchKeywords_request key q = Inl (ErrorObject key_not_configured)"
    using assms(2) by (auto simp: searchKeywords_request_def)
  have pick: "(case searchQuery of None \<Rightarrow> query s | Some x \<Rightarrow> if x \<noteq> [] then x else query s) = q"
    using assms(3) q by auto
  show ?thesis
    unfolding handleSearch_begin_def pick Let_def
    using assms(1) by (simp add: req handleSearch_settle_def)
qed

text \<open>
  C4. For a query that is not empty after trimming, with the credential absent (undefined or
  the empty string), the guard of \<^verbatim>\<open>searchKeywords\<close> throws the configuration error before
  \<^verbatim>\<open>fetch\<close> is reached: the search, whether started with the query as argument, from the text
  typed, or by the auto-search effect, issues no request and ends with the configuration
  message as the error, not loading.
\<close>

theorem missing_credential_fails_fast:
  assumes "trim q \<noteq> []" and "key = None \<or> key = Some []"
  shows "searchKeywords_request key q = Inl (ErrorObject key_not_configured)
         \<and> handleSearch_begin key (Some q) s
           = (s\<lparr> isLoading := False, error := Some key_not_configured, keywordList := [] \<rparr>, None)
         \<and> (query s = q \<longrightarrow>
              handleSearch_begin key None s
              = (s\<lparr> isLoading := False, error := Some key_not_configured, keywordList := [] \<rparr>,
                 None))
         \<and> (debouncedQuery s = q \<longrightarrow>
              auto_search key s
              = (s\<lparr> isLoading := False, error := Some key_not_configured, keywordList := [] \<rparr>,
                 None))"
proof -
  have req: "searchKeywords_request key q = Inl (ErrorObject key_not_configured)"
    using assms(2) by (auto simp: searchKeywords_request_def)
  have typed: "handleSearch_begin key (Some q) s
           = (s\<lparr> isLoading := False, error := Some key_not_configured, keywordList := [] \<rparr>, None)"
    by (rule begin_without_key [OF assms]) simp
  have click: "handleSearch_begin key None s
           = (s\<lparr> isLoading := False, error := Some key_not_configured, keywordList := [] \<rparr>, None)"
    if "query s = q"
    by (rule begin_without_key [OF assms]) (simp add: that)
  have auto: "auto_search key s
           = (s\<lparr> isLoading := False, error := Some key_not_configured, keywordList := [] \<rparr>, None)"
    if "debouncedQuery s = q"
    using assms(1) that typed by (simp add: auto_search_def)
  from req typed click auto show ?thesis by blast
qed

theorem missing_credential_fails_fast_witness:
  "trim ''seo tools'' \<noteq> []
   \<and> searchKeywords_request None ''seo tools''
     = Inl (ErrorObject ''RapidAPI key not configured. Please add VITE_RAPIDAPI_KEY to your environment variables.'')
   \<and> handleSearch_begin None (Some ''seo tools'') initial_panel
     = (\<lparr> query = [], debouncedQuery = [], keywordList = [], isLoading = False,
          error = Some ''RapidAPI key not configured. Please add VITE_RAPIDAPI_KEY to your environment variables.'',
          bookmarked = [], timer = None \<rparr>, None)"
proof -
  have h: "trim ''seo tools'' \<noteq> []"
    by (simp add: trim_def is_space_def)
  show ?thesis
    using h missing_credential_fails_fast [OF h, of None initial_panel]
    by (simp add: initial_panel_def key_not_configured_def)
qed

text \<open>
  C5, as amended. A debounced query that is empty after trimming makes the auto-search
  effect clear the keyword list and the error and issue no request (it leaves
  \<^verbatim>\<open>isLoading\<close> as it is). \<^verbatim>\<open>handleSearch\<close> on a query that is empty after trimming issues no
  request either, but it keeps the keyword list and sets the error
  \<open>Please enter a search term\<close>.
\<close>

theorem empty_query:
  "(trim (debouncedQuery s) = [] \<longrightarrow>
      auto_search key s = (s\<lparr> keywordList := [], error := None \<rparr>, None))
   \<and> (trim (query s) = [] \<longrightarrow>
      handleSearch_begin key None s = (s\<lparr> error := Some ''Please enter a search term'' \<rparr>, None))
   \<and> (q \<noteq> [] \<and> trim q = [] \<longrightarrow>
      handleSearch_begin key (Some q) s
      = (s\<lparr> error := Some ''Please enter a search term'' \<rparr>, None))"
  by (simp add: auto_search_def handleSearch_begin_def)

theorem empty_query_witness:
  "trim (debouncedQuery (initial_panel\<lparr> debouncedQuery := ''  '', error := Some ''old'' \<rparr>)) = []
   \<and> auto_search (Some ''k'') (initial_panel\<lparr> debouncedQuery := ''  '', error := Some ''old'' \<rparr>)
     = (initial_panel\<lparr> debouncedQuery := ''  '' \<rparr>, None)
   \<and> trim (query initial_panel) = []
   \<and> handleSearch_begin (Some ''k'') None initial_panel
     = (initial_panel\<lparr> error := Some ''Please enter a search term'' \<rparr>, None)
   \<and> trim ''  '' = []
   \<and> handleSearch_begin (Some ''k'') (Some ''  '') initial_panel
     = (initial_panel\<lparr> error := Some ''Please enter a search term'' \<rparr>, None)"
  using empty_query [of "initial_panel\<lparr> debouncedQuery := ''  '', error := Some ''old'' \<rparr>"
      "Some ''k''" "''  ''"]
    empty_query [of initial_panel "Some ''k''" "''  ''"]
  by (simp add: initial_panel_def trim_def is_space_def)

text \<open>
  C5 as written fails for \<^verbatim>\<open>handleSearch\<close>: submitted with nothing typed while a result is
  shown, it leaves the result in place and sets an error, so the panel is not idle.
\<close>

theorem empty_query_counterexample:
  "trim (query (initial_panel\<lparr> keywordList := [spec_keyword example_x] \<rparr>)) = []
   \<and> handleSearch_begin (Some ''k'') None (initial_panel\<lparr> keywordList := [spec_keyword example_x] \<rparr>)
     = (initial_panel\<lparr> keywordList := [spec_keyword example_x],
                        error := Some ''Please enter a search term'' \<rparr>, None)"
  by (simp add: handleSearch_begin_def initial_panel_def trim_def)

lemma begin_with_key:
  assumes "trim q \<noteq> []" and "k \<noteq> []"
  shows "handleSearch_begin (Some k) (Some q) s
         = (s\<lparr> isLoading := True, error := None, keywordList := [] \<rparr>,
            Some \<lparr> req_keyword = q, req_country = ''us'', req_key = k, req_host = RAPIDAPI_HOST \<rparr>)"
  using assms trim_nonempty [OF assms(1)]
  by (simp add: handleSearch_begin_def searchKeywords_request_def Let_def)

text \<open>
  C1, as amended. With the credential present, two searches started one after the other both
  issue their request. The continuation of \<^verbatim>\<open>handleSearch\<close> applies a response when it
  arrives, whichever search it answers: when the response to the first query arrives after
  the response to the second, the panel stops loading and shows the first query's outcome,
  its keyword list if it succeeded and its error message if it failed.
\<close>

theorem late_response_overwrites:
  assumes "trim qa \<noteq> []" and "trim qb \<noteq> []" and "k \<noteq> []"
  shows "snd (handleSearch_begin (Some k) (Some qa) s)
         = Some \<lparr> req_keyword = qa, req_country = ''us'', req_key = k, req_host = RAPIDAPI_HOST \<rparr>
         \<and> snd (handleSearch_begin (Some k) (Some qb) (fst (handleSearch_begin (Some k) (Some qa) s)))
           = Some \<lparr> req_keyword = qb, req_country = ''us'', req_key = k, req_host = RAPIDAPI_HOST \<rparr>
         \<and> isLoading (overlapping_searches (Some k) engine qa qb fa fb s) = False
         \<and> (searchKeywords_response engine fa = Inr ks \<longrightarrow>
              keywordList (overlapping_searches (Some k) engine qa qb fa fb s) = ks)
         \<and> (searchKeywords_response engine fa = Inl (ErrorObject m) \<longrightarrow>
              error (overlapping_searches (Some k) engine qa qb fa fb s) = Some m)"
proof -
  have run: "overlapping_searches (Some k) engine qa qb fa fb s
             = handleSearch_resume engine fa
                 (handleSearch_resume engine fb
                    (s\<lparr> isLoading := True, error := None, keywordList := [] \<rparr>))"
    by (simp add: overlapping_searches_def begin_with_key [OF assms(1,3)]
        begin_with_key [OF assms(2,3)])
  have loading: "isLoading (handleSearch_resume engine fa t) = False" for t
    by (simp add: handleSearch_resume_def handleSearch_settle_def split: sum.splits)
  have won: "keywordList (handleSearch_resume engine fa t) = ks"
    if "searchKeywords_response engine fa = Inr ks" for t
    using that by (simp add: handleSearch_resume_def handleSearch_settle_def)
  have lost: "error (handleSearch_resume engine fa t) = Some m"
    if "searchKeywords_response engine fa = Inl (ErrorObject m)" for t
    using that by (simp add: handleSearch_resume_def handleSearch_settle_def)
  show ?thesis
    unfolding run using loading won lost
    by (simp add: begin_with_key [OF assms(1,3)] begin_with_key [OF assms(2,3)])
qed

theorem late_response_overwrites_witness:
  "trim ''a'' \<noteq> [] \<and> trim ''ab'' \<noteq> [] \<and> ''k'' \<noteq> []
   \<and> searchKeywords_response engine_texts (success example_payload)
     = Inr [spec_keyword example_x, spec_keyword example_y]
   \<and> searchKeywords_response engine_texts (failure 500 (Inr (JObj [])))
     = Inl (ErrorObject ''API request failed with status 500'')
   \<and> keywordList (overlapping_searches (Some ''k'') engine_texts ''a'' ''ab''
        (success example_payload) (success questions_only_payload) initial_panel)
     = [spec_keyword example_x, spec_keyword example_y]
   \<and> error (overlapping_searches (Some ''k'') engine_texts ''a'' ''ab''
        (failure 500 (Inr (JObj []))) (success questions_only_payload) initial_panel)
     = Some ''API request failed with status 500''"
proof -
  have h1: "trim ''a'' \<noteq> []" and h2: "trim ''ab'' \<noteq> []"
    by (simp_all add: trim_def is_space_def)
  have h3: "''k'' \<noteq> []" by simp
  have ra: "searchKeywords_response engine_texts (success example_payload)
            = Inr [spec_keyword example_x, spec_keyword example_y]"
    by (simp add: searchKeywords_response_def success_def ok_def example_defs payload_eval
        shape_eval)
  have rf: "searchKeywords_response engine_texts (failure 500 (Inr (JObj [])))
            = Inl (ErrorObject ''API request failed with status 500'')"
    by (simp add: searchKeywords_response_def failure_def ok_def get_prop_def
        status_message_def show_nat.simps)
  show ?thesis
    using h1 h2 h3 ra rf
      late_response_overwrites [OF h1 h2 h3, of initial_panel engine_texts
        "success example_payload" "success questions_only_payload"
        "[spec_keyword example_x, spec_keyword example_y]"]
      late_response_overwrites [OF h1 h2 h3, of initial_panel engine_texts
        "failure 500 (Inr (JObj []))" "success questions_only_payload" _
        "''API request failed with status 500''"]
    by simp
qed

text \<open>
  C1 as written fails: query \<open>a\<close> is submitted, then query \<open>ab\<close>; the response to \<open>ab\<close>
  (one keyword) arrives first, the response to \<open>a\<close> (two keywords) after it, and the list
  shown at the end is the one of the superseded query \<open>a\<close>.
\<close>

theorem last_request_wins_counterexample:
  "searchKeywords_response engine_texts (success questions_only_payload)
   = Inr [spec_keyword example_y]
   \<and> keywordList (overlapping_searches (Some ''k'') engine_texts ''a'' ''ab''
        (success example_payload) (success questions_only_payload) initial_panel)
     = [spec_keyword example_x, spec_keyword example_y]
   \<and> [spec_keyword example_x, spec_keyword example_y] \<noteq> [spec_keyword example_y]"
  by (simp add: overlapping_searches_def handleSearch_begin_def handleSearch_resume_def
      handleSearch_settle_def searchKeywords_request_def searchKeywords_response_def
      success_def ok_def trim_def is_space_def initial_panel_def example_defs payload_eval
      shape_eval)

subsection \<open>Debounce\<close>

lemma elapse_not_due:
  "timer s = Some (due, v) \<Longrightarrow> t < due \<Longrightarrow> elapse t s = (s, [])"
  by (simp add: elapse_def)

lemma elapse_due:
  "timer s = Some (due, v) \<Longrightarrow> due \<le> t \<Longrightarrow>
   elapse t s = (s\<lparr> debouncedQuery := v, timer := None \<rparr>, [v])"
  by (simp add: elapse_def)

lemma query_elapse: "query (fst (elapse t s)) = query s"
  by (simp add: elapse_def split: option.splits prod.splits)

lemma onChange_edit:
  assumes "v \<noteq> query s"
  shows "onChange t v s
         = ((fst (elapse t s))\<lparr> query := v, timer := Some (t + 300, v) \<rparr>, snd (elapse t s))"
  using assms query_elapse [of t s]
  by (simp add: onChange_def split_beta Let_def)

lemma run_edits_pending:
  assumes "timer s = Some (t0 + 300, v0)" and "query s = v0"
    and "rapid ((t0, v0) # es)" and "edits_from v0 es"
  shows "snd (run_edits es s) = []
         \<and> timer (fst (run_edits es s))
           = Some (fst (last ((t0, v0) # es)) + 300, snd (last ((t0, v0) # es)))
         \<and> debouncedQuery (fst (run_edits es s)) = debouncedQuery s"
  using assms
proof (induction es arbitrary: s t0 v0)
  case Nil
  then show ?case by simp
next
  case (Cons e es)
  obtain t v where e: "e = (t, v)" by (cases e)
  from Cons.prems(3) e have t: "t < t0 + 300" and r: "rapid ((t, v) # es)"
    by simp_all
  from Cons.prems(4) e have v: "v \<noteq> v0" and ed: "edits_from v es"
    by simp_all
  have quiet: "elapse t s = (s, [])"
    by (rule elapse_not_due [OF Cons.prems(1) t])
  have step: "onChange t v s = (s\<lparr> query := v, timer := Some (t + 300, v) \<rparr>, [])"
    using v Cons.prems(2) by (simp add: onChange_edit quiet)
  let ?s1 = "s\<lparr> query := v, timer := Some (t + 300, v) \<rparr>"
  have ih: "snd (run_edits es ?s1) = []
         \<and> timer (fst (run_edits es ?s1))
           = Some (fst (last ((t, v) # es)) + 300, snd (last ((t, v) # es)))
         \<and> debouncedQuery (fst (run_edits es ?s1)) = debouncedQuery ?s1"
    by (rule Cons.IH [OF _ _ r ed]) simp_all
  show ?case
    using ih by (simp add: e step split_beta Let_def)
qed

text \<open>
  C9. Take a non-empty sequence of edits, each changing the text and each arriving less than
  300 units after the one before it. Whatever the panel was doing before, the values
  committed from the first edit up to a time \<open>T\<close> are: what a timer pending from before the
  first edit committed at that moment, and then the final value alone, once 300 units have
  passed since the last edit; no intermediate value is committed. From then on the debounced
  query is the final value and no timer is pending.
\<close>

theorem debounce_coalesces:
  assumes "es \<noteq> []" and "rapid es" and "edits_from (query s) es"
  shows "snd (run_until T es s)
         = snd (elapse (fst (hd es)) s)
           @ (if fst (last es) + 300 \<le> T then [snd (last es)] else [])
         \<and> (fst (last es) + 300 \<le> T \<longrightarrow>
              debouncedQuery (fst (run_until T es s)) = snd (last es)
              \<and> timer (fst (run_until T es s)) = None)"
proof -
  from assms(1) obtain t v es' where es: "es = (t, v) # es'"
    by (cases es) auto
  let ?s0 = "fst (elapse t s)"
  let ?s1 = "?s0\<lparr> query := v, timer := Some (t + 300, v) \<rparr>"
  from assms(3) es have v: "v \<noteq> query s" and ed: "edits_from v es'"
    by simp_all
  have first: "onChange t v s = (?s1, snd (elapse t s))"
    by (rule onChange_edit [OF v])
  from assms(2) es have r: "rapid ((t, v) # es')" by simp
  have pend: "snd (run_edits es' ?s1) = []
         \<and> timer (fst (run_edits es' ?s1))
           = Some (fst (last ((t, v) # es')) + 300, snd (last ((t, v) # es')))
         \<and> debouncedQuery (fst (run_edits es' ?s1)) = debouncedQuery ?s1"
    by (rule run_edits_pending [OF _ _ r ed]) simp_all
  let ?s2 = "fst (run_edits es' ?s1)"
  have run: "run_edits es s = (?s2, snd (elapse t s))"
    using pend by (simp add: es first split_beta Let_def prod_eq_iff)
  from pend have tm: "timer ?s2 = Some (fst (last es) + 300, snd (last es))"
    by (simp add: es)
  have hd: "fst (hd es) = t" by (simp add: es)
  show ?thesis
  proof (cases "fst (last es) + 300 \<le> T")
    case True
    have "elapse T ?s2 = (?s2\<lparr> debouncedQuery := snd (last es), timer := None \<rparr>, [snd (last es)])"
      by (rule elapse_due [OF tm True])
    with True show ?thesis
      by (simp add: run_until_def run hd)
  next
    case False
    then have "T < fst (last es) + 300" by simp
    then have "elapse T ?s2 = (?s2, [])"
      by (rule elapse_not_due [OF tm])
    with False show ?thesis
      by (simp add: run_until_def run hd)
  qed
qed

theorem debounce_coalesces_witness:
  "[(0::nat, ''s''), (100, ''se''), (250, ''seo'')] \<noteq> []
   \<and> rapid [(0, ''s''), (100, ''se''), (250, ''seo'')]
   \<and> edits_from (query initial_panel) [(0, ''s''), (100, ''se''), (250, ''seo'')]
   \<and> snd (run_until 550 [(0, ''s''), (100, ''se''), (250, ''seo'')] initial_panel) = [''seo'']
   \<and> snd (run_until 549 [(0, ''s''), (100, ''se''), (250, ''seo'')] initial_panel) = []
   \<and> debouncedQuery (fst (run_until 550 [(0, ''s''), (100, ''se''), (250, ''seo'')] initial_panel))
     = ''seo''"
proof -
  have h1: "[(0::nat, ''s''), (100, ''se''), (250, ''seo'')] \<noteq> []" by simp
  have h2: "rapid [(0, ''s''), (100, ''se''), (250, ''seo'')]" by simp
  have h3: "edits_from (query initial_panel) [(0, ''s''), (100, ''se''), (250, ''seo'')]"
    by (simp add: initial_panel_def)
  have pre: "snd (elapse 0 initial_panel) = []"
    by (simp add: elapse_def initial_panel_def)
  show ?thesis
    using h2 h3 pre debounce_coalesces [OF h1 h2 h3, of 550] debounce_coalesces [OF h1 h2 h3, of 549]
    by simp
qed

subsection \<open>Bookmark toggle\<close>

text \<open>
  C8. Toggling a term removes it from the bookmarks when it is a member and adds it when it
  is not; it leaves the membership of every other term alone; and toggling the same term
  twice gives back the membership of every term.
\<close>

theorem toggleBookmark_membership:
  "(term \<in> set prev \<longrightarrow> term \<notin> set (toggleBookmark term prev))
   \<and> (term \<notin> set prev \<longrightarrow> term \<in> set (toggleBookmark term prev))
   \<and> (\<forall>t. t \<noteq> term \<longrightarrow> (t \<in> set (toggleBookmark term prev)) = (t \<in> set prev))
   \<and> set (toggleBookmark term (toggleBookmark term prev)) = set prev"
  by (auto simp: toggleBookmark_def)

theorem toggleBookmark_membership_witness:
  "''seo'' \<in> set [''seo'', ''ads'']
   \<and> ''seo'' \<notin> set (toggleBookmark ''seo'' [''seo'', ''ads''])
   \<and> ''ppc'' \<notin> set [''seo'', ''ads'']
   \<and> ''ppc'' \<in> set (toggleBookmark ''ppc'' [''seo'', ''ads''])
   \<and> (''ads'' \<in> set (toggleBookmark ''seo'' [''seo'', ''ads''])) = (''ads'' \<in> set [''seo'', ''ads''])
   \<and> set (toggleBookmark ''seo'' (toggleBookmark ''seo'' [''seo'', ''ads''])) = set [''seo'', ''ads'']"
  using toggleBookmark_membership [of "''seo''" "[''seo'', ''ads'']"]
    toggleBookmark_membership [of "''ppc''" "[''seo'', ''ads'']"]
  by (simp add: toggleBookmark_def)

end
